theory Spec2Isabelle
  imports
    Complex_Main
    "HOL-Library.Word"
    "HOL-Library.AList"
    "HOL-Library.Sublist"
    "HOL-Library.Char_ord"
    "HOL-Library.List_Lexorder"
begin

section \<open>Floating-point values\<close>

text \<open>
  The feature extractors compute with Python and NumPy floats and test them with
  \<^verbatim>\<open>np.isnan\<close> and \<^verbatim>\<open>np.isinf\<close>, so the model keeps the three kinds of
  non-finite value apart from the finite ones. A finite value is an exact real: rounding
  and overflow are not modelled. The operations follow the IEEE rules for the special
  values (signed zeros are not distinguished; a zero divisor counts as +0).
\<close>

datatype fval = Fin real | PInf | NInf | NaN

fun isnan :: "fval \<Rightarrow> bool" where
  "isnan NaN = True"
| "isnan _ = False"

fun isinf :: "fval \<Rightarrow> bool" where
  "isinf PInf = True"
| "isinf NInf = True"
| "isinf _ = False"

definition isfinite :: "fval \<Rightarrow> bool" where
  "isfinite x = (\<not> isnan x \<and> \<not> isinf x)"

fun fneg :: "fval \<Rightarrow> fval" where
  "fneg (Fin a) = Fin (- a)"
| "fneg PInf = NInf"
| "fneg NInf = PInf"
| "fneg NaN = NaN"

fun fadd :: "fval \<Rightarrow> fval \<Rightarrow> fval" where
  "fadd NaN _ = NaN"
| "fadd _ NaN = NaN"
| "fadd (Fin a) (Fin b) = Fin (a + b)"
| "fadd PInf NInf = NaN"
| "fadd NInf PInf = NaN"
| "fadd PInf _ = PInf"
| "fadd _ PInf = PInf"
| "fadd NInf _ = NInf"
| "fadd _ NInf = NInf"

definition fsub :: "fval \<Rightarrow> fval \<Rightarrow> fval" where
  "fsub a b = fadd a (fneg b)"

text \<open>
  Division. Every division of two Python floats or ints in the sources is guarded by a
  test that the divisor is not zero (Python would raise there); the others are NumPy
  divisions, which return a non-finite value instead of raising.
\<close>

fun fdiv :: "fval \<Rightarrow> fval \<Rightarrow> fval" where
  "fdiv NaN _ = NaN"
| "fdiv _ NaN = NaN"
| "fdiv (Fin a) (Fin b) =
     (if b = 0 then (if a = 0 then NaN else if 0 < a then PInf else NInf) else Fin (a / b))"
| "fdiv (Fin a) _ = Fin 0"
| "fdiv PInf (Fin b) = (if 0 \<le> b then PInf else NInf)"
| "fdiv NInf (Fin b) = (if 0 \<le> b then NInf else PInf)"
| "fdiv _ _ = NaN"

section \<open>Rasters\<close>

text \<open>
  A NumPy array of \<^verbatim>\<open>uint8\<close>: its shape and its elements in row-major order. A
  glyph raster has shape \<open>[h, w]\<close>; the argument of \<^verbatim>\<open>extract_features\<close> may also
  be \<^verbatim>\<open>None\<close>, hence \<open>ndarray option\<close> there.
\<close>

type_synonym pixel = "8 word"

record ndarray =
  shape :: "nat list"
  data :: "pixel list"

definition ndim :: "ndarray \<Rightarrow> nat" where
  "ndim a = length (shape a)"

definition ndarray_size :: "ndarray \<Rightarrow> nat" where
  "ndarray_size a = prod_list (shape a)"

definition np_zeros_uint8 :: "nat \<Rightarrow> nat \<Rightarrow> ndarray" where
  "np_zeros_uint8 h w = \<lparr>shape = [h, w], data = replicate (h * w) 0\<rparr>"

definition rows_of :: "ndarray \<Rightarrow> pixel list list" where
  "rows_of a =
     (let h = shape a ! 0; w = shape a ! 1
      in map (\<lambda>r. take w (drop (r * w) (data a))) [0..<h])"

text \<open>\<^verbatim>\<open>cv2.countNonZero\<close>.\<close>

definition countNonZero :: "ndarray \<Rightarrow> nat" where
  "countNonZero a = length (filter (\<lambda>p. p \<noteq> 0) (data a))"

text \<open>
  \<^verbatim>\<open>cv2.moments\<close> of a 2-D raster, the three raw moments the extractor reads:
  \<open>m00 = \<Sum> I(x,y)\<close>, \<open>m10 = \<Sum> x * I(x,y)\<close>, \<open>m01 = \<Sum> y * I(x,y)\<close>, where the pixel
  at flat index \<open>i\<close> has \<open>x = i mod w\<close> and \<open>y = i div w\<close>.
\<close>

definition moments_image :: "ndarray \<Rightarrow> fval \<times> fval \<times> fval" where
  "moments_image a =
     (let w = shape a ! 1;
          ps = zip [0..<length (data a)] (map unat (data a))
      in (Fin (real (sum_list (map (\<lambda>(i, p). p) ps))),
          Fin (real (sum_list (map (\<lambda>(i, p). (i mod w) * p) ps))),
          Fin (real (sum_list (map (\<lambda>(i, p). (i div w) * p) ps)))))"

text \<open>\<^verbatim>\<open>cv2.copyMakeBorder(img, top, bottom, left, right, BORDER_CONSTANT, value)\<close>.\<close>

definition copyMakeBorder :: "ndarray \<Rightarrow> nat \<Rightarrow> nat \<Rightarrow> nat \<Rightarrow> nat \<Rightarrow> pixel \<Rightarrow> ndarray" where
  "copyMakeBorder a n_top n_bottom n_left n_right v =
     (let h = shape a ! 0; w = shape a ! 1;
          w' = n_left + w + n_right;
          blank = replicate w' v
      in \<lparr>shape = [n_top + h + n_bottom, w'],
          data = concat (replicate n_top blank
                   @ map (\<lambda>row. replicate n_left v @ row @ replicate n_right v) (rows_of a)
                   @ replicate n_bottom blank)\<rparr>)"

section \<open>The OpenCV contour functions\<close>

text \<open>
  Contour tracing and contour geometry are OpenCV's, not this repository's, so they are
  parameters of the model. \<^verbatim>\<open>cv2.findContours(img, RETR_TREE, CHAIN_APPROX_SIMPLE)\<close>
  returns the contours and, for each contour, its hierarchy row
  \<^verbatim>\<open>[Next, Previous, First_Child, Parent]\<close> (\<open>-1\<close> for none); the two sequences have
  the same length, and the hierarchy is \<^verbatim>\<open>None\<close> exactly when there is no contour.
  The model pairs each contour with its row, so \<^verbatim>\<open>hierarchy is None\<close> is the empty
  list.
\<close>

type_synonym point = "int \<times> int"
type_synonym contour = "point list"

record hnode =
  h_next :: int
  h_prev :: int
  first_child :: int
  parent :: int

record cv2 =
  findContours :: "ndarray \<Rightarrow> (contour \<times> hnode) list"
  arcLength :: "contour \<Rightarrow> fval"
  contourArea :: "contour \<Rightarrow> fval"
  boundingRect :: "contour \<Rightarrow> nat \<times> nat \<times> nat \<times> nat"
  moments_contour :: "contour \<Rightarrow> fval \<times> fval \<times> fval"

section \<open>The online feature extractor (\<^verbatim>\<open>fontsnip/matching/feature_extractor.py\<close>)\<close>

definition FEATURE_VECTOR_SIZE :: nat where
  "FEATURE_VECTOR_SIZE = 7"

definition np_zeros :: "nat \<Rightarrow> fval list" where
  "np_zeros n = replicate n (Fin 0)"

text \<open>\<^verbatim>\<open>v[np.isnan(v)] = 0.0\<close> and \<^verbatim>\<open>v[np.isinf(v)] = 0.0\<close>.\<close>

definition nan_to_zero :: "fval list \<Rightarrow> fval list" where
  "nan_to_zero v = map (\<lambda>x. if isnan x then Fin 0 else x) v"

definition inf_to_zero :: "fval list \<Rightarrow> fval list" where
  "inf_to_zero v = map (\<lambda>x. if isinf x then Fin 0 else x) v"

text \<open>The first loop over the contours: those that have a parent.\<close>

fun count_holes :: "(contour \<times> hnode) list \<Rightarrow> nat" where
  "count_holes [] = 0"
| "count_holes ((c, n) # rest) =
     (if parent n \<noteq> -1 then 1 + count_holes rest else count_holes rest)"

text \<open>
  The second loop: \<open>total_perimeter\<close> and \<open>total_area\<close> accumulate over the contours
  that have no parent, in order.
\<close>

fun sum_external :: "cv2 \<Rightarrow> fval \<times> fval \<Rightarrow> (contour \<times> hnode) list \<Rightarrow> fval \<times> fval" where
  "sum_external cv acc [] = acc"
| "sum_external cv (total_perimeter, total_area) ((c, n) # rest) =
     (if parent n = -1
      then sum_external cv (fadd total_perimeter (arcLength cv c),
                            fadd total_area (contourArea cv c)) rest
      else sum_external cv (total_perimeter, total_area) rest)"

text \<open>
  The body of \<^verbatim>\<open>extract_features\<close> from the aspect ratio to the assembly of
  \<^verbatim>\<open>feature_vector\<close>, for a raster that has passed the checks at the top of the
  function.
\<close>

definition feature_vector :: "cv2 \<Rightarrow> ndarray \<Rightarrow> fval list" where
  "feature_vector cv img =
     (let h = shape img ! 0; w = shape img ! 1;
          aspect_ratio = fdiv (Fin (real w)) (Fin (real h));
          total_pixels = h * w;
          white_pixels = countNonZero img;
          pixel_density =
            (if total_pixels > 0
             then fdiv (Fin (real white_pixels)) (Fin (real total_pixels))
             else Fin 0);
          (m00, m10, m01) = moments_image img;
          norm_centroid_x =
            (if m00 \<noteq> Fin 0 then fdiv (fdiv m10 m00) (Fin (real w)) else Fin 0);
          norm_centroid_y =
            (if m00 \<noteq> Fin 0 then fdiv (fdiv m01 m00) (Fin (real h)) else Fin 0);
          padded_image = copyMakeBorder img 1 1 1 1 0;
          forest = findContours cv padded_image;
          num_holes = (if forest \<noteq> [] then count_holes forest else 0);
          (total_perimeter, total_area) =
            (if forest \<noteq> [] then sum_external cv (Fin 0, Fin 0) forest
             else (Fin 0, Fin 0));
          diagonal = sqrt (real (h ^ 2 + w ^ 2));
          norm_perimeter =
            (if diagonal > 0 then fdiv total_perimeter (Fin diagonal) else Fin 0);
          norm_area =
            (if total_pixels > 0 then fdiv total_area (Fin (real total_pixels))
             else Fin 0)
      in [aspect_ratio, pixel_density, norm_centroid_x, norm_centroid_y,
          Fin (real num_holes), norm_perimeter, norm_area])"

text \<open>
  The whole function: the checks, the assembled vector, and the sanity check that sets
  its NaN and infinite entries to 0.
\<close>

definition extract_features :: "cv2 \<Rightarrow> ndarray option \<Rightarrow> fval list" where
  "extract_features cv char_image =
     (case char_image of
        None \<Rightarrow> np_zeros FEATURE_VECTOR_SIZE
      | Some img \<Rightarrow>
          if ndim img \<noteq> 2 \<or> ndarray_size img = 0 then np_zeros FEATURE_VECTOR_SIZE
          else
            let h = shape img ! 0; w = shape img ! 1 in
            if h = 0 \<or> w = 0 then np_zeros FEATURE_VECTOR_SIZE
            else inf_to_zero (nan_to_zero (feature_vector cv img)))"

section \<open>The database builder (\<^verbatim>\<open>scripts/build_font_database.py\<close>)\<close>

datatype error = ValueError

definition CHARSET :: string where
  "CHARSET = ''abcdefghijklmnopqrstuvwxyzABCDEFGHIJKLMNOPQRSTUVWXYZ0123456789''"

definition FONT_SIZE :: nat where
  "FONT_SIZE = 48"

definition CANVAS_SIZE :: "nat \<times> nat" where
  "CANVAS_SIZE = (64, 64)"

text \<open>
  \<^verbatim>\<open>next(i for i, h in enumerate(hierarchy[0]) if h[3] == -1)\<close>: the index of the
  first contour without a parent; \<open>None\<close> is \<^verbatim>\<open>StopIteration\<close>.
\<close>

fun first_root :: "nat \<Rightarrow> (contour \<times> hnode) list \<Rightarrow> nat option" where
  "first_root i [] = None"
| "first_root i ((c, n) # rest) =
     (if parent n = -1 then Some i else first_root (Suc i) rest)"

text \<open>\<^verbatim>\<open>glyph_img[y:y+h, x:x+w]\<close>; NumPy clips a slice at the end of the array.\<close>

definition roi_of :: "ndarray \<Rightarrow> nat \<Rightarrow> nat \<Rightarrow> nat \<Rightarrow> nat \<Rightarrow> pixel list list" where
  "roi_of a y h x w = map (\<lambda>row. take w (drop x row)) (take h (drop y (rows_of a)))"

text \<open>
  The builder's own \<^verbatim>\<open>extract_features\<close> (the name is taken by the online one).
  \<open>None\<close> is its \<^verbatim>\<open>return None\<close>.
\<close>

definition build_extract_features :: "cv2 \<Rightarrow> ndarray \<Rightarrow> fval list option" where
  "build_extract_features cv glyph_img =
     (let forest = findContours cv glyph_img in
      if forest = [] then None
      else
        case first_root 0 forest of
          None \<Rightarrow> None
        | Some outer_contour_idx \<Rightarrow>
            let outer_contour = fst (forest ! outer_contour_idx);
                (x, y, w, h) = boundingRect cv outer_contour in
            if h = 0 \<or> w = 0 then None
            else
              let aspect_ratio = fdiv (Fin (real w)) (Fin (real h));
                  roi = concat (roi_of glyph_img y h x w);
                  pixel_density =
                    fdiv (Fin (real (length (filter (\<lambda>p. p > 0) roi))))
                         (Fin (real (length roi)));
                  (m00, m10, m01) = moments_contour cv outer_contour in
              if m00 = Fin 0 then None
              else
                let cx = fdiv (fsub (fdiv m10 m00) (Fin (real x))) (Fin (real w));
                    cy = fdiv (fsub (fdiv m01 m00) (Fin (real y))) (Fin (real h));
                    num_holes =
                      length (filter (\<lambda>(c, n). parent n = int outer_contour_idx) forest)
                in Some [aspect_ratio, pixel_density, cx, cy, Fin (real num_holes)])"

text \<open>
  \<^verbatim>\<open>np.mean(np.array(vs), axis=0)\<close> for a non-empty list of vectors: the
  component-wise mean. Vectors of different lengths do not form a 2-D array; then the
  call raises.
\<close>

definition np_mean_axis0_fval :: "fval list list \<Rightarrow> error + fval list" where
  "np_mean_axis0_fval vs =
     (let d = length (hd vs) in
      if list_ex (\<lambda>v. length v \<noteq> d) vs then Inl ValueError
      else Inr (map (\<lambda>j. fdiv (foldl fadd (Fin 0) (map (\<lambda>v. v ! j) vs))
                              (Fin (real (length vs)))) [0..<d]))"

text \<open>
  A font file path, as far as the builder reads it: \<^verbatim>\<open>font_path.name\<close> is the key
  of the database. Rendering a glyph is Pillow's work behind \<^verbatim>\<open>render_char\<close>, a
  parameter here: \<open>render_char font_path char font_size canvas_size\<close>.
\<close>

record Path =
  parent_dir :: string
  name :: string

type_synonym renderer = "Path \<Rightarrow> char \<Rightarrow> nat \<Rightarrow> nat \<times> nat \<Rightarrow> ndarray option"

text \<open>The inner loop of \<^verbatim>\<open>main\<close>: the feature vectors of one font.\<close>

fun char_features :: "cv2 \<Rightarrow> renderer \<Rightarrow> Path \<Rightarrow> string \<Rightarrow> fval list list" where
  "char_features cv render_char font_path [] = []"
| "char_features cv render_char font_path (ch # rest) =
     (case render_char font_path ch FONT_SIZE CANVAS_SIZE of
        None \<Rightarrow> char_features cv render_char font_path rest
      | Some glyph_img \<Rightarrow>
          (case build_extract_features cv glyph_img of
             None \<Rightarrow> char_features cv render_char font_path rest
           | Some features \<Rightarrow> features # char_features cv render_char font_path rest))"

text \<open>
  The outer loop: \<open>font_database\<close> is a Python dict, here an association list in
  insertion order; \<open>AList.update\<close> overwrites a key in place and appends a new one.
\<close>

fun build_database ::
  "cv2 \<Rightarrow> renderer \<Rightarrow> (string \<times> fval list) list \<Rightarrow> Path list
   \<Rightarrow> error + (string \<times> fval list) list" where
  "build_database cv render_char font_database [] = Inr font_database"
| "build_database cv render_char font_database (font_path # rest) =
     (let char_features_list = char_features cv render_char font_path CHARSET in
      if char_features_list \<noteq> [] then
        (case np_mean_axis0_fval char_features_list of
           Inl e \<Rightarrow> Inl e
         | Inr mean_vector \<Rightarrow>
             build_database cv render_char
               (AList.update (name font_path) mean_vector font_database) rest)
      else build_database cv render_char font_database rest)"

text \<open>
  \<^verbatim>\<open>main\<close>, given the font files found on the system: the database written to the
  pickle file, or \<open>None\<close> when it is empty and nothing is written.
\<close>

definition main :: "cv2 \<Rightarrow> renderer \<Rightarrow> Path list \<Rightarrow> error + (string \<times> fval list) list option" where
  "main cv render_char font_paths =
     (case build_database cv render_char [] font_paths of
        Inl e \<Rightarrow> Inl e
      | Inr font_database \<Rightarrow>
          if font_database = [] then Inr None else Inr (Some font_database))"

section \<open>The matcher (\<^verbatim>\<open>fontsnip/matching/font_matcher.py\<close>)\<close>

text \<open>
  A font database is a Python dict from font name to vector, here an association list in
  iteration (insertion) order; \<open>None\<close> is the database that could not be loaded.
  Which entries are scored, in which order the result lists them and how many it keeps
  does not depend on the rounding of the scores, and for these the vectors and scores
  are modelled over the reals. The values of the scores are binary32 numbers; they are
  modelled further down.
\<close>

type_synonym font_db = "(string \<times> real list) list"

text \<open>\<^verbatim>\<open>np.dot\<close> of two 1-D arrays; it raises when their lengths differ.\<close>

definition np_dot :: "real list \<Rightarrow> real list \<Rightarrow> error + real" where
  "np_dot v1 v2 =
     (if length v1 \<noteq> length v2 then Inl ValueError
      else Inr (sum_list (map (\<lambda>(a, b). a * b) (zip v1 v2))))"

text \<open>\<^verbatim>\<open>np.linalg.norm\<close> of a 1-D array.\<close>

definition np_linalg_norm :: "real list \<Rightarrow> real" where
  "np_linalg_norm v = sqrt (sum_list (map (\<lambda>a. a * a) v))"

definition cosine_similarity :: "real list \<Rightarrow> real list \<Rightarrow> error + real" where
  "cosine_similarity vec1 vec2 =
     (case np_dot vec1 vec2 of
        Inl e \<Rightarrow> Inl e
      | Inr dot_product \<Rightarrow>
          let norm_vec1 = np_linalg_norm vec1;
              norm_vec2 = np_linalg_norm vec2 in
          if norm_vec1 = 0 \<or> norm_vec2 = 0 then Inr 0
          else Inr (dot_product / (norm_vec1 * norm_vec2)))"

text \<open>
  \<^verbatim>\<open>np.mean(vs, axis=0)\<close> for a non-empty list of 1-D arrays, as in the builder but
  over the reals. The matcher calls it behind its test that the list is not empty.
\<close>

definition np_mean_axis0 :: "real list list \<Rightarrow> error + real list" where
  "np_mean_axis0 vs =
     (let d = length (hd vs) in
      if list_ex (\<lambda>v. length v \<noteq> d) vs then Inl ValueError
      else Inr (map (\<lambda>j. sum_list (map (\<lambda>v. v ! j) vs) / real (length vs)) [0..<d]))"

text \<open>
  The loop over \<^verbatim>\<open>self.font_database.items()\<close>: an entry whose shape differs from
  the target's is skipped (\<^verbatim>\<open>continue\<close>); the others are scored and appended in
  order. An exception of \<^verbatim>\<open>_cosine_similarity\<close> would leave the loop.
\<close>

fun score_fonts :: "real list \<Rightarrow> font_db \<Rightarrow> error + (string \<times> real) list" where
  "score_fonts target_vector [] = Inr []"
| "score_fonts target_vector ((font_name, db_vector) # rest) =
     (if length target_vector \<noteq> length db_vector then score_fonts target_vector rest
      else
        case cosine_similarity target_vector db_vector of
          Inl e \<Rightarrow> Inl e
        | Inr similarity \<Rightarrow>
            (case score_fonts target_vector rest of
               Inl e \<Rightarrow> Inl e
             | Inr scores \<Rightarrow> Inr ((font_name, similarity) # scores)))"

text \<open>
  \<^verbatim>\<open>xs.sort(key=key, reverse=True)\<close>: CPython reverses the list, sorts it stably
  in ascending order of the key and reverses it again, so elements with equal keys keep
  their order. \<open>sort_key\<close> is a stable insertion sort.
\<close>

definition sort_reverse :: "('a \<Rightarrow> real) \<Rightarrow> 'a list \<Rightarrow> 'a list" where
  "sort_reverse key xs = rev (sort_key key (rev xs))"

text \<open>\<^verbatim>\<open>xs[:n]\<close>: a negative \<open>n\<close> counts from the end.\<close>

definition slice_to :: "'a list \<Rightarrow> int \<Rightarrow> 'a list" where
  "slice_to xs n =
     (if 0 \<le> n then take (nat n) xs else take (nat (int (length xs) + n)) xs)"

definition find_best_matches ::
  "font_db option \<Rightarrow> real list list \<Rightarrow> int \<Rightarrow> error + (string \<times> real) list" where
  "find_best_matches font_database snip_feature_vectors top_n =
     (case font_database of
        None \<Rightarrow> Inr []
      | Some db \<Rightarrow>
          if db = [] then Inr []
          else if snip_feature_vectors = [] then Inr []
          else
            case np_mean_axis0 snip_feature_vectors of
              Inl e \<Rightarrow> Inr []
            | Inr target_vector \<Rightarrow>
                (case score_fonts target_vector db of
                   Inl e \<Rightarrow> Inl e
                 | Inr scores \<Rightarrow>
                     if scores = [] then Inr []
                     else Inr (slice_to (sort_reverse snd scores) top_n)))"

text \<open>
  The score of one database vector against a target of the same length, as a plain
  value: what \<open>cosine_similarity\<close> returns when it returns.
\<close>

definition cosine_value :: "real list \<Rightarrow> real list \<Rightarrow> real" where
  "cosine_value vec1 vec2 =
     (if np_linalg_norm vec1 = 0 \<or> np_linalg_norm vec2 = 0 then 0
      else sum_list (map (\<lambda>(a, b). a * b) (zip vec1 vec2))
           / (np_linalg_norm vec1 * np_linalg_norm vec2))"

subsection \<open>Scores in binary32\<close>

text \<open>
  The vectors the matcher receives are \<^verbatim>\<open>float32\<close> arrays (the extractor builds them
  with \<^verbatim>\<open>dtype=np.float32\<close>), and NumPy computes the dot product, the norms, their
  product and the quotient in that type: each operation returns the exact result rounded
  to the nearest binary32 number, ties to the even significand. \<open>round32\<close> is that
  rounding, with the subnormal range and the overflow to infinity; a finite \<open>fval\<close> is
  here a binary32 number.
\<close>

definition round_half_even :: "real \<Rightarrow> int" where
  "round_half_even q =
     (let f = \<lfloor>q\<rfloor>; r = q - real_of_int f
      in if r < 1 / 2 then f
         else if 1 / 2 < r then f + 1
         else if even f then f else f + 1)"

definition pow2 :: "int \<Rightarrow> real" where
  "pow2 e = (if 0 \<le> e then 2 ^ nat e else 1 / 2 ^ nat (- e))"

definition float32_exponent :: "real \<Rightarrow> int" where
  "float32_exponent x = max (- 126) \<lfloor>log 2 \<bar>x\<bar>\<rfloor>"

definition round32 :: "real \<Rightarrow> fval" where
  "round32 x =
     (if x = 0 then Fin 0
      else
        let q = pow2 (float32_exponent x - 23);
            r = real_of_int (round_half_even (x / q)) * q
        in if pow2 128 \<le> \<bar>r\<bar> then (if 0 < x then PInf else NInf) else Fin r)"

definition to_float32 :: "fval \<Rightarrow> fval" where
  "to_float32 x = (case x of Fin r \<Rightarrow> round32 r | _ \<Rightarrow> x)"

text \<open>
  Product and square root with the IEEE rules for the special values, and the four
  operations of the matcher in binary32: the exact result, rounded.
\<close>

fun fmul :: "fval \<Rightarrow> fval \<Rightarrow> fval" where
  "fmul NaN _ = NaN"
| "fmul _ NaN = NaN"
| "fmul (Fin a) (Fin b) = Fin (a * b)"
| "fmul (Fin a) PInf = (if a = 0 then NaN else if 0 < a then PInf else NInf)"
| "fmul (Fin a) NInf = (if a = 0 then NaN else if 0 < a then NInf else PInf)"
| "fmul PInf (Fin b) = (if b = 0 then NaN else if 0 < b then PInf else NInf)"
| "fmul NInf (Fin b) = (if b = 0 then NaN else if 0 < b then NInf else PInf)"
| "fmul PInf PInf = PInf"
| "fmul PInf NInf = NInf"
| "fmul NInf PInf = NInf"
| "fmul NInf NInf = PInf"

fun fsqrt :: "fval \<Rightarrow> fval" where
  "fsqrt (Fin a) = (if a < 0 then NaN else Fin (sqrt a))"
| "fsqrt PInf = PInf"
| "fsqrt NInf = NaN"
| "fsqrt NaN = NaN"

definition add32 :: "fval \<Rightarrow> fval \<Rightarrow> fval" where
  "add32 a b = to_float32 (fadd a b)"

definition mul32 :: "fval \<Rightarrow> fval \<Rightarrow> fval" where
  "mul32 a b = to_float32 (fmul a b)"

definition div32 :: "fval \<Rightarrow> fval \<Rightarrow> fval" where
  "div32 a b = to_float32 (fdiv a b)"

definition sqrt32 :: "fval \<Rightarrow> fval" where
  "sqrt32 a = to_float32 (fsqrt a)"

text \<open>
  \<^verbatim>\<open>np.dot\<close>, \<^verbatim>\<open>np.linalg.norm\<close> (the square root of \<^verbatim>\<open>x.dot(x)\<close>) and
  \<^verbatim>\<open>_cosine_similarity\<close> on \<^verbatim>\<open>float32\<close> arrays. NumPy leaves the order of the
  additions of a dot product to its kernels; the model adds from left to right.
\<close>

definition np_dot_float32 :: "fval list \<Rightarrow> fval list \<Rightarrow> error + fval" where
  "np_dot_float32 v1 v2 =
     (if length v1 \<noteq> length v2 then Inl ValueError
      else Inr (foldl (\<lambda>acc (a, b). add32 acc (mul32 a b)) (Fin 0) (zip v1 v2)))"

definition np_linalg_norm_float32 :: "fval list \<Rightarrow> fval" where
  "np_linalg_norm_float32 v = sqrt32 (foldl (\<lambda>acc a. add32 acc (mul32 a a)) (Fin 0) v)"

definition cosine_similarity_float32 :: "fval list \<Rightarrow> fval list \<Rightarrow> error + fval" where
  "cosine_similarity_float32 vec1 vec2 =
     (case np_dot_float32 vec1 vec2 of
        Inl e \<Rightarrow> Inl e
      | Inr dot_product \<Rightarrow>
          let norm_vec1 = np_linalg_norm_float32 vec1;
              norm_vec2 = np_linalg_norm_float32 vec2 in
          if norm_vec1 = Fin 0 \<or> norm_vec2 = Fin 0 then Inr (Fin 0)
          else Inr (div32 dot_product (mul32 norm_vec1 norm_vec2)))"

subsection \<open>The scores of a match\<close>

text \<open>
  The list \<open>scores\<close> after the loop, written without the loop: the fonts whose vector
  has the target's length, in database order, each with its score.
\<close>

definition matching_scores :: "real list \<Rightarrow> font_db \<Rightarrow> (string \<times> real) list" where
  "matching_scores target_vector db =
     map (\<lambda>(font_name, db_vector). (font_name, cosine_value target_vector db_vector))
       (filter (\<lambda>(font_name, db_vector). length db_vector = length target_vector) db)"

section \<open>Sample inputs\<close>

text \<open>
  A 5 by 5 glyph raster: a square ring with one foreground pixel in the middle of its
  hole.
\<close>

definition ring_dot_glyph :: ndarray where
  "ring_dot_glyph =
     \<lparr>shape = [5, 5],
      data = [255, 255, 255, 255, 255,
              255,   0,   0,   0, 255,
              255,   0, 255,   0, 255,
              255,   0,   0,   0, 255,
              255, 255, 255, 255, 255]\<rparr>"

text \<open>
  What the OpenCV functions answer on that raster: three contours, each nested in the
  one before (the ring's outer boundary, the boundary of its hole, the dot), so the
  parents are \<open>-1\<close>, \<open>0\<close> and \<open>1\<close>. The outer boundary runs through the corner pixels:
  bounding box \<open>(0, 0, 5, 5)\<close>, polygon area 16 with centroid \<open>(2, 2)\<close>, perimeter 16.
  Only the outer contour is measured by either extractor.
\<close>

definition ring_dot_forest :: "(contour \<times> hnode) list" where
  "ring_dot_forest =
     [([(0, 0), (0, 4), (4, 4), (4, 0)],
       \<lparr>h_next = -1, h_prev = -1, first_child = 1, parent = -1\<rparr>),
      ([(0, 1), (1, 0), (3, 0), (4, 1), (4, 3), (3, 4), (1, 4), (0, 3)],
       \<lparr>h_next = -1, h_prev = -1, first_child = 2, parent = 0\<rparr>),
      ([(2, 2)],
       \<lparr>h_next = -1, h_prev = -1, first_child = -1, parent = 1\<rparr>)]"

definition cv_ring_dot :: cv2 where
  "cv_ring_dot =
     \<lparr>findContours = (\<lambda>img. ring_dot_forest),
      arcLength = (\<lambda>c. Fin 16),
      contourArea = (\<lambda>c. Fin 16),
      boundingRect = (\<lambda>c. (0, 0, 5, 5)),
      moments_contour = (\<lambda>c. (Fin 16, Fin 32, Fin 32))\<rparr>"

text \<open>
  The same answers, except that the two contour measures return non-finite values: the
  case the sanity check at the end of \<^verbatim>\<open>extract_features\<close> is written for. And a
  raster without pixels.
\<close>

definition cv_ring_dot_nonfinite :: cv2 where
  "cv_ring_dot_nonfinite =
     cv_ring_dot\<lparr>arcLength := (\<lambda>c. PInf), contourArea := (\<lambda>c. NaN)\<rparr>"

definition empty_raster :: ndarray where
  "empty_raster = \<lparr>shape = [0, 5], data = []\<rparr>"

text \<open>
  What OpenCV answers on a raster without foreground: no contour. The contour measures
  are then never called.
\<close>

definition cv_no_contours :: cv2 where
  "cv_no_contours =
     \<lparr>findContours = (\<lambda>img. []),
      arcLength = (\<lambda>c. Fin 0),
      contourArea = (\<lambda>c. Fin 0),
      boundingRect = (\<lambda>c. (0, 0, 0, 0)),
      moments_contour = (\<lambda>c. (Fin 0, Fin 0, Fin 0))\<rparr>"

text \<open>
  A renderer for a font file that has this glyph for the letter o and no glyph for any
  other character, and the path of that file. The sample is drawn on a canvas of 5 by 5
  pixels rather than \<open>CANVAS_SIZE\<close>; the builder never reads the size of the canvas.
\<close>

definition render_ring_dot :: renderer where
  "render_ring_dot font_path ch font_size canvas_size =
     (if ch = CHR ''o'' then Some ring_dot_glyph else None)"

definition sample_font :: Path where
  "sample_font = \<lparr>parent_dir = ''/usr/share/fonts'', name = ''Sample.ttf''\<rparr>"

text \<open>
  Inputs of the matcher: a query vector, a database in which two fonts have the same
  vector (the font named b.ttf was inserted first), and a database with an entry of 5
  components, as the builder writes them, before one of 7.
\<close>

definition unit_vector :: "real list" where
  "unit_vector = [1, 0, 0, 0, 0, 0, 0]"

definition tied_fonts :: font_db where
  "tied_fonts = [(''b.ttf'', [1, 0, 0, 0, 0, 0, 0]), (''a.ttf'', [1, 0, 0, 0, 0, 0, 0])]"

definition stale_fonts :: font_db where
  "stale_fonts = [(''Stale.ttf'', [1, 0, 0, 0, 0]), (''A.ttf'', [1, 0, 0, 0, 0, 0, 0])]"

text \<open>
  A \<^verbatim>\<open>float32\<close> vector for the scores in binary32. Its products and their partial
  sums are binary32 numbers, so its dot product with itself is exact, in any order of
  the additions: 341 / 256.
\<close>

definition halving_vector :: "fval list" where
  "halving_vector = [Fin 1, Fin (1 / 2), Fin (1 / 4), Fin (1 / 8), Fin (1 / 16), Fin 0, Fin 0]"

section \<open>Properties of the online extractor\<close>

lemma isfinite_Fin [simp]: "isfinite (Fin a)"
  by (simp add: isfinite_def)

lemma sanitized_finite: "list_all isfinite (inf_to_zero (nan_to_zero v))"
proof (induction v)
  case Nil
  show ?case by (simp add: inf_to_zero_def nan_to_zero_def)
next
  case (Cons x v)
  have "isfinite (if isinf (if isnan x then Fin 0 else x) then Fin 0
                  else (if isnan x then Fin 0 else x))"
    by (cases x) (simp_all add: isfinite_def)
  with Cons show ?case by (simp add: inf_to_zero_def nan_to_zero_def)
qed

lemma sanitized_length: "length (inf_to_zero (nan_to_zero v)) = length v"
  by (simp add: inf_to_zero_def nan_to_zero_def)

lemma np_zeros_finite: "list_all isfinite (np_zeros n)"
  by (simp add: np_zeros_def list_all_length)

lemma extract_features_length: "length (extract_features cv char_image) = 7"
  unfolding extract_features_def feature_vector_def
  by (simp add: Let_def FEATURE_VECTOR_SIZE_def np_zeros_def sanitized_length
      split: option.split prod.split)

lemma extract_features_finite: "list_all isfinite (extract_features cv char_image)"
  unfolding extract_features_def feature_vector_def
  by (simp add: Let_def np_zeros_finite sanitized_finite split: option.split prod.split)

lemma sanitized_pointwise:
  "inf_to_zero (nan_to_zero v) = map (\<lambda>x. if isnan x \<or> isinf x then Fin 0 else x) v"
  by (induction v) (auto simp: inf_to_zero_def nan_to_zero_def)

lemma shape_of_2d:
  assumes "ndim img = 2" "ndarray_size img \<noteq> 0"
  shows "shape img ! 0 \<noteq> 0 \<and> shape img ! Suc 0 \<noteq> 0"
proof -
  from assms(1) obtain h w where "shape img = [h, w]"
    unfolding ndim_def
    by (metis (no_types, opaque_lifting) One_nat_def Suc_1 length_0_conv length_Suc_conv)
  with assms(2) show ?thesis by (simp add: ndarray_size_def)
qed

lemma extract_features_invalid:
  "extract_features cv None = replicate 7 (Fin 0)"
  "ndim img \<noteq> 2 \<or> ndarray_size img = 0
   \<Longrightarrow> extract_features cv (Some img) = replicate 7 (Fin 0)"
  by (auto simp: extract_features_def np_zeros_def FEATURE_VECTOR_SIZE_def)

lemma extract_features_valid:
  assumes "ndim img = 2" "ndarray_size img \<noteq> 0"
  shows "extract_features cv (Some img)
         = map (\<lambda>x. if isnan x \<or> isinf x then Fin 0 else x) (feature_vector cv img)"
  using assms shape_of_2d [OF assms]
  by (simp add: extract_features_def Let_def sanitized_pointwise)

text \<open>
  C6. For every input and whatever the OpenCV functions return, \<^verbatim>\<open>extract_features\<close>
  returns 7 values, none of them NaN or infinite. For \<^verbatim>\<open>None\<close>, an array that is
  not 2-D and an empty array they are 7 zeros. For any other raster each value is the
  component assembled from the raster when that is finite, and 0 when it is NaN or
  infinite.
\<close>

theorem extract_features_seven_finite:
  "length (extract_features cv char_image) = 7
   \<and> list_all isfinite (extract_features cv char_image)
   \<and> extract_features cv None = replicate 7 (Fin 0)
   \<and> (ndim img \<noteq> 2 \<or> ndarray_size img = 0
        \<longrightarrow> extract_features cv (Some img) = replicate 7 (Fin 0))
   \<and> (ndim img = 2 \<and> ndarray_size img \<noteq> 0
        \<longrightarrow> extract_features cv (Some img)
            = map (\<lambda>x. if isnan x \<or> isinf x then Fin 0 else x) (feature_vector cv img))"
  using extract_features_invalid(1) [where cv = cv]
    extract_features_invalid(2) [where cv = cv and img = img]
    extract_features_valid [where cv = cv and img = img]
  by (simp add: extract_features_length extract_features_finite)

text \<open>The vector of the sample glyph, with the answers of OpenCV given above.\<close>

lemma moments_image_ring_dot: "moments_image ring_dot_glyph = (Fin 4335, Fin 8670, Fin 8670)"
  by (simp add: moments_image_def ring_dot_glyph_def Let_def upt_conv_Cons)

lemma extract_features_ring_dot:
  "extract_features cv_ring_dot (Some ring_dot_glyph)
   = [Fin 1, Fin (17 / 25), Fin (2 / 5), Fin (2 / 5), Fin 2, Fin (16 / sqrt 50), Fin (16 / 25)]"
proof -
  have f: "findContours cv_ring_dot img = ring_dot_forest"
    and a: "arcLength cv_ring_dot c = Fin 16" "contourArea cv_ring_dot c = Fin 16" for img c
    by (simp_all add: cv_ring_dot_def)
  have ne: "ring_dot_forest \<noteq> []" and c: "count_holes ring_dot_forest = 2"
    by (simp_all add: ring_dot_forest_def)
  have e: "sum_external cv_ring_dot (Fin 0, Fin 0) ring_dot_forest = (Fin 16, Fin 16)"
    by (simp add: ring_dot_forest_def a)
  have s: "ndim ring_dot_glyph = 2" "ndarray_size ring_dot_glyph = 25"
    "shape ring_dot_glyph ! 0 = 5" "shape ring_dot_glyph ! Suc 0 = 5"
    "countNonZero ring_dot_glyph = 17"
    by (simp_all add: ring_dot_glyph_def ndim_def ndarray_size_def countNonZero_def)
  show ?thesis
    unfolding extract_features_def feature_vector_def
    by (simp add: f ne c e s moments_image_ring_dot Let_def nan_to_zero_def inf_to_zero_def)
qed

lemma feature_vector_ring_dot_nonfinite:
  "feature_vector cv_ring_dot_nonfinite ring_dot_glyph
   = [Fin 1, Fin (17 / 25), Fin (2 / 5), Fin (2 / 5), Fin 2, PInf, NaN]"
proof -
  have f: "findContours cv_ring_dot_nonfinite img = ring_dot_forest"
    and a: "arcLength cv_ring_dot_nonfinite c = PInf"
      "contourArea cv_ring_dot_nonfinite c = NaN" for img c
    by (simp_all add: cv_ring_dot_nonfinite_def cv_ring_dot_def)
  have ne: "ring_dot_forest \<noteq> []" and c: "count_holes ring_dot_forest = 2"
    by (simp_all add: ring_dot_forest_def)
  have e: "sum_external cv_ring_dot_nonfinite (Fin 0, Fin 0) ring_dot_forest = (PInf, NaN)"
    by (simp add: ring_dot_forest_def a)
  have s: "shape ring_dot_glyph ! 0 = 5" "shape ring_dot_glyph ! Suc 0 = 5"
    "countNonZero ring_dot_glyph = 17"
    by (simp_all add: ring_dot_glyph_def countNonZero_def)
  show ?thesis
    unfolding feature_vector_def
    by (simp add: f ne c e s moments_image_ring_dot Let_def)
qed

theorem extract_features_seven_finite_witness:
  "feature_vector cv_ring_dot_nonfinite ring_dot_glyph
     = [Fin 1, Fin (17 / 25), Fin (2 / 5), Fin (2 / 5), Fin 2, PInf, NaN]
   \<and> extract_features cv_ring_dot_nonfinite (Some ring_dot_glyph)
     = [Fin 1, Fin (17 / 25), Fin (2 / 5), Fin (2 / 5), Fin 2, Fin 0, Fin 0]
   \<and> length (extract_features cv_ring_dot_nonfinite (Some ring_dot_glyph)) = 7
   \<and> list_all isfinite (extract_features cv_ring_dot_nonfinite (Some ring_dot_glyph))
   \<and> extract_features cv_ring_dot_nonfinite None = replicate 7 (Fin 0)
   \<and> extract_features cv_ring_dot_nonfinite (Some empty_raster) = replicate 7 (Fin 0)"
proof -
  have v: "ndim ring_dot_glyph = 2 \<and> ndarray_size ring_dot_glyph \<noteq> 0"
    by (simp add: ring_dot_glyph_def ndim_def ndarray_size_def)
  have e: "ndim empty_raster \<noteq> 2 \<or> ndarray_size empty_raster = 0"
    by (simp add: empty_raster_def ndarray_size_def)
  show ?thesis
    using extract_features_seven_finite
        [of cv_ring_dot_nonfinite "Some ring_dot_glyph" ring_dot_glyph]
      extract_features_seven_finite
        [of cv_ring_dot_nonfinite "Some ring_dot_glyph" empty_raster]
      v e feature_vector_ring_dot_nonfinite
    by simp
qed

subsection \<open>The all-background raster\<close>

lemma sum_list_all_zero: "(\<And>x. x \<in> set xs \<Longrightarrow> f x = (0::nat)) \<Longrightarrow> sum_list (map f xs) = 0"
  by (induction xs) auto

lemma moments_image_zeros: "moments_image (np_zeros_uint8 h w) = (Fin 0, Fin 0, Fin 0)"
  unfolding moments_image_def np_zeros_uint8_def
  by (auto simp: Let_def intro!: sum_list_all_zero dest!: set_zip_rightD)

lemma countNonZero_zeros: "countNonZero (np_zeros_uint8 h w) = 0"
  by (simp add: countNonZero_def np_zeros_uint8_def)

lemma np_zeros_uint8_shape:
  "ndim (np_zeros_uint8 h w) = 2" "ndarray_size (np_zeros_uint8 h w) = h * w"
  "shape (np_zeros_uint8 h w) ! 0 = h" "shape (np_zeros_uint8 h w) ! Suc 0 = w"
  by (simp_all add: ndim_def ndarray_size_def np_zeros_uint8_def)

text \<open>
  On an all-background raster, for which OpenCV finds no contour, the vector is the
  aspect ratio followed by six zeros.
\<close>

lemma extract_features_all_background:
  assumes "0 < h" "0 < w"
    and "findContours cv (copyMakeBorder (np_zeros_uint8 h w) 1 1 1 1 0) = []"
  shows "extract_features cv (Some (np_zeros_uint8 h w))
         = [Fin (real w / real h), Fin 0, Fin 0, Fin 0, Fin 0, Fin 0, Fin 0]"
  using assms
  unfolding extract_features_def feature_vector_def
  by (simp add: Let_def np_zeros_uint8_shape moments_image_zeros countNonZero_zeros
      nan_to_zero_def inf_to_zero_def)

lemma extract_features_aspect_ratio:
  assumes "0 < h" "0 < w"
  shows "extract_features cv (Some (np_zeros_uint8 h w)) ! 0 = Fin (real w / real h)"
  using assms
  unfolding extract_features_def feature_vector_def
  by (simp add: Let_def np_zeros_uint8_shape nan_to_zero_def inf_to_zero_def
      split: prod.split)

text \<open>
  C3 fails on the code. The module's own test builds the all-background raster
  \<^verbatim>\<open>np.zeros((50, 50))\<close> and asserts that every component of its vector is 0; the
  first component, the aspect ratio, is computed from the shape alone and is 1, whatever
  the OpenCV functions return. The vector is not the zero sentinel.
\<close>

theorem all_background_raster_is_not_zero_vector:
  "extract_features cv (Some (np_zeros_uint8 50 50)) ! 0 = Fin 1
   \<and> extract_features cv (Some (np_zeros_uint8 50 50)) \<noteq> np_zeros 7"
proof -
  have a: "extract_features cv (Some (np_zeros_uint8 50 50)) ! 0 = Fin 1"
    using extract_features_aspect_ratio [of 50 50 cv] by simp
  have "np_zeros 7 ! 0 = Fin 0" by (simp add: np_zeros_def)
  with a show ?thesis by auto
qed

theorem all_background_raster_is_not_zero_vector_witness:
  "extract_features cv_no_contours (Some (np_zeros_uint8 50 50))
     = [Fin 1, Fin 0, Fin 0, Fin 0, Fin 0, Fin 0, Fin 0]
   \<and> extract_features cv_no_contours (Some (np_zeros_uint8 50 50)) ! 0 = Fin 1
   \<and> extract_features cv_no_contours (Some (np_zeros_uint8 50 50)) \<noteq> np_zeros 7"
proof -
  have "extract_features cv_no_contours (Some (np_zeros_uint8 50 50))
        = [Fin 1, Fin 0, Fin 0, Fin 0, Fin 0, Fin 0, Fin 0]"
    using extract_features_all_background [of 50 50 cv_no_contours]
    by (simp add: cv_no_contours_def)
  then show ?thesis
    using all_background_raster_is_not_zero_vector [of cv_no_contours] by simp
qed

subsection \<open>The hole count of the online extractor\<close>

lemma count_holes_filter:
  "count_holes forest = length (filter (\<lambda>(c, n). parent n \<noteq> -1) forest)"
  by (induction forest rule: count_holes.induct) auto

text \<open>
  The online extractor counts every contour that has a parent, at any depth.
\<close>

lemma extract_features_hole_count:
  assumes "ndim img = 2" "ndarray_size img \<noteq> 0"
  shows "extract_features cv (Some img) ! 4
         = Fin (real (length (filter (\<lambda>(c, n). parent n \<noteq> -1)
                       (findContours cv (copyMakeBorder img 1 1 1 1 0)))))"
  using assms shape_of_2d [OF assms]
  unfolding extract_features_def feature_vector_def
  by (simp add: Let_def nan_to_zero_def inf_to_zero_def count_holes_filter split: prod.split)

text \<open>
  A ring: when OpenCV reports an outer contour and one contour inside it, the count is 1.
\<close>

lemma extract_features_ring:
  assumes "ndim img = 2" "ndarray_size img \<noteq> 0"
    and "findContours cv (copyMakeBorder img 1 1 1 1 0) = [(c0, n0), (c1, n1)]"
    and "parent n0 = -1" "parent n1 = 0"
  shows "extract_features cv (Some img) ! 4 = Fin 1"
  using extract_features_hole_count [OF assms(1,2), of cv] assms(3-5) by simp

section \<open>Properties of the builder\<close>

lemma build_extract_features_length:
  "build_extract_features cv glyph_img = Some v \<Longrightarrow> length v = 5"
  unfolding build_extract_features_def
  by (auto simp: Let_def split: if_splits option.splits prod.splits)

text \<open>
  C1 fails on the code. The builder has its own \<^verbatim>\<open>extract_features\<close>, whose
  docstring says that it must be identical to the one of the application. It returns
  \<^verbatim>\<open>None\<close> or five values, the online one always seven: on no raster, and whatever
  the OpenCV functions return, do the two return the same vector.
\<close>

theorem builder_features_never_equal_online_features:
  "build_extract_features cv glyph_img \<noteq> Some (extract_features cv (Some glyph_img))"
  using build_extract_features_length [of cv glyph_img "extract_features cv (Some glyph_img)"]
    extract_features_length [of cv "Some glyph_img"]
  by auto

text \<open>
  The builder's hole count: the contours whose parent is the first root contour, and no
  contour nested deeper or inside another root.
\<close>

lemma build_extract_features_hole_count:
  assumes "build_extract_features cv glyph_img = Some v"
    and "first_root 0 (findContours cv glyph_img) = Some i"
  shows "v ! 4 = Fin (real (length (filter (\<lambda>(c, n). parent n = int i)
                                     (findContours cv glyph_img))))"
  using assms
  unfolding build_extract_features_def
  by (auto simp: Let_def split: if_splits prod.splits)

subsection \<open>The sample glyph\<close>

lemma rows_of_ring_dot_glyph:
  "rows_of ring_dot_glyph =
     [[255, 255, 255, 255, 255],
      [255,   0,   0,   0, 255],
      [255,   0, 255,   0, 255],
      [255,   0,   0,   0, 255],
      [255, 255, 255, 255, 255]]"
  by (simp add: rows_of_def ring_dot_glyph_def upt_conv_Cons)

lemma roi_of_ring_dot_glyph: "concat (roi_of ring_dot_glyph 0 5 0 5) = data ring_dot_glyph"
  by (simp add: roi_of_def rows_of_ring_dot_glyph) (simp add: ring_dot_glyph_def)

lemma build_extract_features_ring_dot:
  "build_extract_features cv_ring_dot ring_dot_glyph
   = Some [Fin 1, Fin (17 / 25), Fin (2 / 5), Fin (2 / 5), Fin 1]"
proof -
  have f: "findContours cv_ring_dot ring_dot_glyph = ring_dot_forest"
    and b: "boundingRect cv_ring_dot c = (0, 0, 5, 5)"
    and m: "moments_contour cv_ring_dot c = (Fin 16, Fin 32, Fin 32)" for c
    by (simp_all add: cv_ring_dot_def)
  have ne: "ring_dot_forest \<noteq> []" "data ring_dot_glyph \<noteq> []"
    by (simp_all add: ring_dot_forest_def ring_dot_glyph_def)
  have r: "first_root 0 ring_dot_forest = Some 0"
    by (simp add: ring_dot_forest_def)
  have h: "length (filter (\<lambda>(c, n). parent n = 0) ring_dot_forest) = Suc 0"
    by (simp add: ring_dot_forest_def)
  have d: "length (filter (\<lambda>p. p > 0) (data ring_dot_glyph)) = 17"
    "length (data ring_dot_glyph) = 25"
    by (simp_all add: ring_dot_glyph_def)
  show ?thesis
    unfolding build_extract_features_def
    by (simp add: f b m ne h d r roi_of_ring_dot_glyph Let_def fsub_def)
qed

theorem builder_features_never_equal_online_features_witness:
  "build_extract_features cv_ring_dot ring_dot_glyph
     = Some [Fin 1, Fin (17 / 25), Fin (2 / 5), Fin (2 / 5), Fin 1]
   \<and> extract_features cv_ring_dot (Some ring_dot_glyph)
     = [Fin 1, Fin (17 / 25), Fin (2 / 5), Fin (2 / 5), Fin 2, Fin (16 / sqrt 50), Fin (16 / 25)]
   \<and> build_extract_features cv_ring_dot ring_dot_glyph
     \<noteq> Some (extract_features cv_ring_dot (Some ring_dot_glyph))"
  using builder_features_never_equal_online_features [of cv_ring_dot ring_dot_glyph]
    build_extract_features_ring_dot extract_features_ring_dot
  by simp

text \<open>
  C5 fails on the builder. On the ring with a dot in its hole two contours have a
  parent, and the online extractor counts both; the builder counts the contours whose
  parent is the first root contour and reports 1. Its docstring requires the pipeline of
  the application.
\<close>

theorem builder_hole_count_misses_nested_contour:
  "length (filter (\<lambda>(c, n). parent n \<noteq> -1) (findContours cv_ring_dot ring_dot_glyph)) = 2
   \<and> map_option (\<lambda>v. v ! 4) (build_extract_features cv_ring_dot ring_dot_glyph)
       = Some (Fin 1)"
  by (simp add: build_extract_features_ring_dot) (simp add: cv_ring_dot_def ring_dot_forest_def)

subsection \<open>The database\<close>

lemma char_features_length:
  "v \<in> set (char_features cv render_char font_path cs) \<Longrightarrow> length v = 5"
  by (induction cs) (auto split: option.splits dest: build_extract_features_length)

lemma np_mean_axis0_fval_length:
  assumes "vs \<noteq> []" "\<And>v. v \<in> set vs \<Longrightarrow> length v = n"
  shows "\<exists>m. np_mean_axis0_fval vs = Inr m \<and> length m = n"
proof -
  have "length (hd vs) = n" using assms by (cases vs) auto
  moreover have "\<not> list_ex (\<lambda>v. length v \<noteq> n) vs"
    using assms(2) by (auto simp: list_ex_iff)
  ultimately show ?thesis by (simp add: np_mean_axis0_fval_def Let_def)
qed

lemma set_update_subset: "set (AList.update k v al) \<subseteq> insert (k, v) (set al)"
  by (induction al) auto

lemma build_database_length:
  assumes "build_database cv render_char db0 font_paths = Inr db"
    and "\<And>k v. (k, v) \<in> set db0 \<Longrightarrow> length v = 5"
    and "(k, v) \<in> set db"
  shows "length v = 5"
  using assms
proof (induction font_paths arbitrary: db0)
  case Nil
  then show ?case by simp
next
  case (Cons fp rest)
  show ?case
  proof (cases "char_features cv render_char fp CHARSET = []")
    case True
    with Cons show ?thesis by simp
  next
    case False
    then obtain m where m:
      "np_mean_axis0_fval (char_features cv render_char fp CHARSET) = Inr m" "length m = 5"
      using np_mean_axis0_fval_length [OF False, of 5] char_features_length by blast
    have "\<And>k v. (k, v) \<in> set (AList.update (name fp) m db0) \<Longrightarrow> length v = 5"
      using set_update_subset [of "name fp" m db0] Cons.prems(2) m(2) by auto
    moreover have "build_database cv render_char (AList.update (name fp) m db0) rest = Inr db"
      using Cons.prems(1) False m by simp
    ultimately show ?thesis using Cons.IH Cons.prems(3) by blast
  qed
qed

text \<open>The builder never stops on an exception of \<^verbatim>\<open>np.mean\<close>.\<close>

lemma build_database_returns:
  "\<exists>db. build_database cv render_char db0 font_paths = Inr db"
proof (induction font_paths arbitrary: db0)
  case Nil
  then show ?case by simp
next
  case (Cons fp rest)
  show ?case
  proof (cases "char_features cv render_char fp CHARSET = []")
    case True
    with Cons show ?thesis by simp
  next
    case False
    then obtain m where
      "np_mean_axis0_fval (char_features cv render_char fp CHARSET) = Inr m"
      using np_mean_axis0_fval_length [OF False, of 5] char_features_length by blast
    with False Cons show ?thesis by simp
  qed
qed

lemma main_returns: "\<exists>r. main cv render_char font_paths = Inr r"
  using build_database_returns [of cv render_char "[]" font_paths]
  by (auto simp: main_def)

text \<open>
  C2 fails on the code. Every fingerprint that \<^verbatim>\<open>main\<close> stores is the mean of
  vectors of the builder's own extractor and has 5 components, not the 7 of
  \<open>FEATURE_VECTOR_SIZE\<close>.
\<close>

theorem stored_fingerprints_have_five_components:
  "main cv render_char font_paths = Inr (Some font_database)
   \<Longrightarrow> (k, v) \<in> set font_database \<Longrightarrow> length v = 5"
  unfolding main_def
  using build_database_length [of cv render_char "[]" font_paths font_database k v]
  by (auto split: sum.splits if_splits)

theorem stored_fingerprints_have_five_components_witness:
  "main cv_ring_dot render_ring_dot [sample_font]
     = Inr (Some [(''Sample.ttf'', [Fin 1, Fin (17 / 25), Fin (2 / 5), Fin (2 / 5), Fin 1])])
   \<and> length [Fin 1, Fin (17 / 25), Fin (2 / 5), Fin (2 / 5), Fin 1] = 5
   \<and> FEATURE_VECTOR_SIZE = 7"
proof -
  have c: "char_features cv_ring_dot render_ring_dot sample_font CHARSET
           = [[Fin 1, Fin (17 / 25), Fin (2 / 5), Fin (2 / 5), Fin 1]]"
    by (simp add: CHARSET_def render_ring_dot_def build_extract_features_ring_dot)
  have n: "name sample_font = ''Sample.ttf''"
    by (simp add: sample_font_def)
  have m: "main cv_ring_dot render_ring_dot [sample_font]
           = Inr (Some [(''Sample.ttf'', [Fin 1, Fin (17 / 25), Fin (2 / 5), Fin (2 / 5), Fin 1])])"
    by (simp add: c n main_def np_mean_axis0_fval_def Let_def upt_conv_Cons)
  have "length [Fin 1, Fin (17 / 25), Fin (2 / 5), Fin (2 / 5), Fin 1] = 5"
    using stored_fingerprints_have_five_components [OF m, of "''Sample.ttf''"] by simp
  with m show ?thesis by (simp add: FEATURE_VECTOR_SIZE_def)
qed

section \<open>Properties of the matcher\<close>


lemma cosine_similarity_eq:
  "length v1 = length v2 \<Longrightarrow> cosine_similarity v1 v2 = Inr (cosine_value v1 v2)"
  by (simp add: cosine_similarity_def np_dot_def cosine_value_def Let_def)

lemma score_fonts_eq: "score_fonts t db = Inr (matching_scores t db)"
  by (induction db) (auto simp: cosine_similarity_eq matching_scores_def)


lemma sort_reverse_stable:
  "filter (\<lambda>y. key y = k) (sort_reverse key xs) = filter (\<lambda>y. key y = k) xs"
proof -
  have "filter (\<lambda>y. key y = k) (sort_reverse key xs)
        = rev (filter (\<lambda>y. key y = k) (sort_key key (rev xs)))"
    by (simp add: sort_reverse_def rev_filter)
  also have "\<dots> = rev (filter (\<lambda>y. key y = k) (rev xs))"
    by (simp only: sort_key_stable)
  also have "\<dots> = filter (\<lambda>y. key y = k) xs"
    by (simp add: rev_filter)
  finally show ?thesis .
qed

lemma sort_reverse_set: "set (sort_reverse key xs) = set xs"
  by (simp add: sort_reverse_def)




lemma find_best_matches_eq:
  assumes "db \<noteq> []" "snip \<noteq> []" "np_mean_axis0 snip = Inr target"
  shows "find_best_matches (Some db) snip top_n
         = Inr (slice_to (sort_reverse snd (matching_scores target db)) top_n)"
proof (cases "matching_scores target db = []")
  case True
  then show ?thesis using assms
    by (simp add: find_best_matches_def score_fonts_eq slice_to_def sort_reverse_def)
next
  case False
  then show ?thesis using assms
    by (simp add: find_best_matches_def score_fonts_eq)
qed

lemma find_best_matches_returns: "\<exists>res. find_best_matches font_database snip top_n = Inr res"
  by (simp add: find_best_matches_def score_fonts_eq split: option.split sum.split)

text \<open>
  C7. With an empty query list, whatever the database and \<open>top_n\<close>, and with a
  database that is empty or was not loaded, whatever the query, \<^verbatim>\<open>find_best_matches\<close>
  returns the empty list; it does not raise.
\<close>

theorem find_best_matches_empty_inputs:
  "find_best_matches font_database [] top_n = Inr []
   \<and> find_best_matches None snip top_n = Inr []
   \<and> find_best_matches (Some []) snip top_n = Inr []"
  by (simp add: find_best_matches_def split: option.split)


text \<open>
  C9. The scores computed in a match are those of the database entries whose vector has
  the target's length, in database order; the result is the one of the database without
  the other entries; and the match returns, whatever the lengths in the database.
\<close>

theorem mismatched_entries_are_skipped:
  assumes "np_mean_axis0 snip = Inr target"
  shows "score_fonts target db = Inr (matching_scores target db)
   \<and> find_best_matches (Some db) snip top_n
       = find_best_matches
           (Some (filter (\<lambda>(font_name, db_vector). length db_vector = length target) db))
           snip top_n
   \<and> (\<exists>res. find_best_matches (Some db) snip top_n = Inr res)"
proof -
  let ?db' = "filter (\<lambda>(font_name, db_vector). length db_vector = length target) db"
  have m: "matching_scores target ?db' = matching_scores target db"
    by (simp add: matching_scores_def)
  have e: "matching_scores target [] = []"
    by (simp add: matching_scores_def)
  have "find_best_matches (Some db) snip top_n = find_best_matches (Some ?db') snip top_n"
  proof (cases "snip = []")
    case True
    then show ?thesis by (simp add: find_best_matches_def)
  next
    case False
    have l: "find_best_matches (Some d) snip top_n
             = Inr (slice_to (sort_reverse snd (matching_scores target d)) top_n)" for d
    proof (cases "d = []")
      case True
      then show ?thesis
        by (simp add: find_best_matches_def e slice_to_def sort_reverse_def)
    next
      case False
      then show ?thesis using find_best_matches_eq [OF False \<open>snip \<noteq> []\<close> assms] by simp
    qed
    show ?thesis by (simp only: l m)
  qed
  then show ?thesis
    using find_best_matches_returns [of "Some db" snip top_n] score_fonts_eq [of target db]
    by simp
qed

lemma sum_list_zero_real:
  "(\<And>x. x \<in> set xs \<Longrightarrow> f x = (0::real)) \<Longrightarrow> sum_list (map f xs) = 0"
  by (induction xs) auto

lemma np_mean_axis0_zero:
  assumes "snip \<noteq> []" "list_all (\<lambda>v. v = replicate d 0) snip"
  shows "np_mean_axis0 snip = Inr (replicate d 0)"
proof -
  have all: "\<And>v. v \<in> set snip \<Longrightarrow> v = replicate d 0"
    using assms(2) by (simp add: list_all_iff)
  have hd: "length (hd snip) = d" using assms(1) all [of "hd snip"] by simp
  have ne: "\<not> list_ex (\<lambda>v. length v \<noteq> d) snip"
  proof -
    have "length v = d" if "v \<in> set snip" for v using all [OF that] by simp
    then show ?thesis by (auto simp: list_ex_iff)
  qed
  have z: "sum_list (map (\<lambda>v. v ! j) snip) = 0" if "j < d" for j
  proof (rule sum_list_zero_real)
    fix v assume "v \<in> set snip"
    then have "v = replicate d 0" by (rule all)
    then show "v ! j = 0" using \<open>j < d\<close> by simp
  qed
  have "map (\<lambda>j. sum_list (map (\<lambda>v. v ! j) snip) / real (length snip)) [0..<d]
        = map (\<lambda>j. 0) [0..<d]"
    using z by (intro map_cong) auto
  also have "\<dots> = replicate d 0" by (simp add: map_replicate_const)
  finally show ?thesis using hd ne by (simp add: np_mean_axis0_def Let_def)
qed

lemma np_linalg_norm_zero: "np_linalg_norm (replicate d 0) = 0"
  by (simp add: np_linalg_norm_def sum_list_replicate)

lemma matching_scores_zero:
  assumes "list_all (\<lambda>(font_name, db_vector). length db_vector = d) db"
  shows "matching_scores (replicate d 0) db = map (\<lambda>(font_name, db_vector). (font_name, 0)) db"
  using assms
  by (induction db) (auto simp: matching_scores_def cosine_value_def np_linalg_norm_zero)

lemma sort_reverse_constant:
  assumes "\<And>x. x \<in> set xs \<Longrightarrow> key x = c"
  shows "sort_reverse key xs = xs"
proof -
  have "sort_reverse key xs = filter (\<lambda>y. key y = c) (sort_reverse key xs)"
    using assms by (simp add: sort_reverse_set)
  also have "\<dots> = filter (\<lambda>y. key y = c) xs" by (rule sort_reverse_stable)
  also have "\<dots> = xs" using assms by simp
  finally show ?thesis .
qed

text \<open>
  C10. A non-empty query of all-zero vectors against a non-empty database whose vectors
  have the query's length, for a number \<open>top_n\<close> of matches that is not negative: the
  result is not cut to nothing by the zero target. It has \<open>min top_n (length db)\<close>
  pairs, the first fonts of the database in database order, each with score 0.
\<close>

theorem zero_query_scores_every_font_zero:
  assumes "snip \<noteq> []" "list_all (\<lambda>v. v = replicate d 0) snip"
    and "db \<noteq> []" "list_all (\<lambda>(font_name, db_vector). length db_vector = d) db"
    and "0 \<le> top_n"
  shows "\<exists>res. find_best_matches (Some db) snip top_n = Inr res
           \<and> int (length res) = min top_n (int (length db))
           \<and> map snd res = replicate (length res) 0
           \<and> map fst res = take (nat top_n) (map fst db)"
proof -
  let ?zs = "map (\<lambda>(font_name, db_vector). (font_name, 0::real)) db"
  have s: "sort_reverse snd ?zs = ?zs"
    by (rule sort_reverse_constant [where c = 0]) auto
  have "find_best_matches (Some db) snip top_n = Inr (take (nat top_n) ?zs)"
    using find_best_matches_eq [OF assms(3) assms(1) np_mean_axis0_zero [OF assms(1,2)], of top_n]
      assms(5)
    by (simp add: matching_scores_zero [OF assms(4)] s slice_to_def)
  moreover have "int (length (take (nat top_n) ?zs)) = min top_n (int (length db))"
    using assms(5) by simp
  moreover have "map snd (take (nat top_n) ?zs) = replicate (length (take (nat top_n) ?zs)) 0"
    by (simp add: take_map [symmetric] map_replicate_const split_def comp_def)
  moreover have "map fst (take (nat top_n) ?zs) = take (nat top_n) (map fst db)"
    by (simp add: take_map split_def comp_def)
  ultimately show ?thesis by blast
qed


subsection \<open>The sample databases\<close>

lemma np_mean_axis0_unit_vector: "np_mean_axis0 [unit_vector] = Inr unit_vector"
  by (simp add: np_mean_axis0_def unit_vector_def Let_def upt_conv_Cons)

lemma np_linalg_norm_unit: "np_linalg_norm [1, 0, 0, 0, 0, 0, 0] = 1"
  by (simp add: np_linalg_norm_def)

lemma cosine_similarity_unit: "cosine_similarity unit_vector [1, 0, 0, 0, 0, 0, 0] = Inr 1"
  by (simp add: cosine_similarity_def np_dot_def np_linalg_norm_unit unit_vector_def Let_def)


lemma score_fonts_stale: "score_fonts unit_vector stale_fonts = Inr [(''A.ttf'', 1)]"
  by (simp add: stale_fonts_def cosine_similarity_unit) (simp add: unit_vector_def)


lemma find_best_matches_stale:
  "find_best_matches (Some stale_fonts) [unit_vector] 3 = Inr [(''A.ttf'', 1)]"
proof -
  have "stale_fonts \<noteq> []" by (simp add: stale_fonts_def)
  then show ?thesis
    by (simp add: find_best_matches_def np_mean_axis0_unit_vector score_fonts_stale
        sort_reverse_def slice_to_def)
qed



theorem mismatched_entries_are_skipped_witness:
  "np_mean_axis0 [unit_vector] = Inr unit_vector
   \<and> score_fonts unit_vector stale_fonts = Inr (matching_scores unit_vector stale_fonts)
   \<and> find_best_matches (Some stale_fonts) [unit_vector] 3
       = find_best_matches
           (Some (filter (\<lambda>(font_name, db_vector). length db_vector = length unit_vector)
                    stale_fonts))
           [unit_vector] 3
   \<and> find_best_matches (Some stale_fonts) [unit_vector] 3 = Inr [(''A.ttf'', 1)]"
  using mismatched_entries_are_skipped [OF np_mean_axis0_unit_vector, of stale_fonts 3]
    np_mean_axis0_unit_vector find_best_matches_stale
  by (simp add: unit_vector_def)

theorem zero_query_scores_every_font_zero_witness:
  "[replicate 7 (0::real)] \<noteq> []
   \<and> list_all (\<lambda>v. v = replicate 7 0) [replicate 7 (0::real)]
   \<and> tied_fonts \<noteq> []
   \<and> list_all (\<lambda>(font_name, db_vector). length db_vector = 7) tied_fonts
   \<and> (0::int) \<le> 1
   \<and> (\<exists>res. find_best_matches (Some tied_fonts) [replicate 7 0] 1 = Inr res
          \<and> int (length res) = min 1 (int (length tied_fonts))
          \<and> map snd res = replicate (length res) 0
          \<and> map fst res = take (nat 1) (map fst tied_fonts))"
proof -
  have a: "[replicate 7 (0::real)] \<noteq> []"
    "list_all (\<lambda>v. v = replicate 7 0) [replicate 7 (0::real)]"
    by simp_all
  have b: "tied_fonts \<noteq> []"
    "list_all (\<lambda>(font_name, db_vector). length db_vector = 7) tied_fonts"
    by (simp_all add: tied_fonts_def)
  have c: "(0::int) \<le> 1" by simp
  show ?thesis
    using zero_query_scores_every_font_zero [OF a b c] a b by simp
qed

subsection \<open>A score above 1 in binary32\<close>

lemma pow2_powr: "pow2 k = 2 powr real_of_int k"
proof (cases "0 \<le> k")
  case True
  then show ?thesis by (simp add: pow2_def powr_realpow [symmetric])
next
  case False
  then have "pow2 k = 1 / 2 ^ nat (- k)" by (simp add: pow2_def)
  also have "\<dots> = 1 / 2 powr real (nat (- k))" by (simp add: powr_realpow)
  also have "\<dots> = 2 powr real_of_int k" using False by (simp add: powr_minus_divide [symmetric])
  finally show ?thesis .
qed

lemma float32_exponent_binade:
  assumes "pow2 k \<le> \<bar>x\<bar>" "\<bar>x\<bar> < pow2 (k + 1)" "- 126 \<le> k"
  shows "float32_exponent x = k"
proof -
  have "0 < pow2 k" by (simp add: pow2_powr)
  then have pos: "0 < \<bar>x\<bar>" using assms(1) by linarith
  have "real_of_int k \<le> log 2 \<bar>x\<bar>"
    using assms(1) pos by (simp add: le_log_iff pow2_powr)
  moreover have "log 2 \<bar>x\<bar> < real_of_int (k + 1)"
    using assms(2) pos by (simp add: log_less_iff pow2_powr)
  ultimately have "\<lfloor>log 2 \<bar>x\<bar>\<rfloor> = k" by (simp add: floor_unique)
  then show ?thesis using assms(3) by (simp add: float32_exponent_def)
qed

lemma round32_binade:
  assumes "pow2 k \<le> \<bar>x\<bar>" "\<bar>x\<bar> < pow2 (k + 1)" "- 126 \<le> k"
  shows "round32 x =
     (let q = pow2 (k - 23);
          r = real_of_int (round_half_even (x / q)) * q
      in if pow2 128 \<le> \<bar>r\<bar> then (if 0 < x then PInf else NInf) else Fin r)"
proof -
  have "x \<noteq> 0" using assms(1) by (auto simp: pow2_powr)
  then show ?thesis
    by (simp add: round32_def float32_exponent_binade [OF assms])
qed

lemma round_half_even_near:
  assumes "real_of_int n - 1 / 2 < y" "y < real_of_int n + 1 / 2"
  shows "round_half_even y = n"
proof -
  have "\<lfloor>y\<rfloor> = n \<or> \<lfloor>y\<rfloor> = n - 1" using assms by linarith
  then show ?thesis
  proof
    assume f: "\<lfloor>y\<rfloor> = n"
    then have "y - real_of_int \<lfloor>y\<rfloor> < 1 / 2" using assms by simp
    then show ?thesis using f by (simp add: round_half_even_def Let_def)
  next
    assume f: "\<lfloor>y\<rfloor> = n - 1"
    then have "1 / 2 < y - real_of_int \<lfloor>y\<rfloor>" using assms by simp
    then show ?thesis using f by (simp add: round_half_even_def Let_def)
  qed
qed


lemma round32_exact_values:
  "round32 1 = Fin 1"
  "round32 (1 / 4) = Fin (1 / 4)"
  "round32 (1 / 16) = Fin (1 / 16)"
  "round32 (1 / 64) = Fin (1 / 64)"
  "round32 (1 / 256) = Fin (1 / 256)"
  "round32 (5 / 4) = Fin (5 / 4)"
  "round32 (21 / 16) = Fin (21 / 16)"
  "round32 (85 / 64) = Fin (85 / 64)"
  "round32 (341 / 256) = Fin (341 / 256)"
  by (simp_all add: round32_binade [where k = 0] round32_binade [where k = "- 2"]
      round32_binade [where k = "- 4"] round32_binade [where k = "- 6"]
      round32_binade [where k = "- 8"] pow2_def round_half_even_def Let_def)

lemma round32_zero: "round32 0 = Fin 0"
  by (simp add: round32_def)

lemma to_float32_Fin: "to_float32 (Fin r) = round32 r"
  by (simp add: to_float32_def)

lemma dot_halving_vector:
  "foldl (\<lambda>acc (a, b). add32 acc (mul32 a b)) (Fin 0) (zip halving_vector halving_vector)
   = Fin (341 / 256)"
  by (simp add: halving_vector_def add32_def mul32_def to_float32_Fin round32_exact_values
      round32_zero)

lemma square_norm_halving_vector:
  "foldl (\<lambda>acc a. add32 acc (mul32 a a)) (Fin 0) halving_vector = Fin (341 / 256)"
  by (simp add: halving_vector_def add32_def mul32_def to_float32_Fin round32_exact_values
      round32_zero)

lemma sqrt_rounded: "round_half_even (sqrt (341 / 256) / pow2 (- 23)) = 9681599"
proof (rule round_half_even_near)
  have "((9681599 - 1 / 2) / 8388608)\<^sup>2 < (341 / 256 :: real)"
    by (simp add: power2_eq_square)
  then have "(9681599 - 1 / 2) / 8388608 < sqrt (341 / 256)"
    by (rule real_less_rsqrt)
  then show "real_of_int 9681599 - 1 / 2 < sqrt (341 / 256) / pow2 (- 23)"
    by (simp add: pow2_def field_simps)
  have "(341 / 256 :: real) < ((9681599 + 1 / 2) / 8388608)\<^sup>2"
    by (simp add: power2_eq_square)
  then have "sqrt (341 / 256) < (9681599 + 1 / 2) / 8388608"
    by (intro real_less_lsqrt) auto
  then show "sqrt (341 / 256) / pow2 (- 23) < real_of_int 9681599 + 1 / 2"
    by (simp add: pow2_def field_simps)
qed

lemma sqrt_in_binade: "pow2 0 \<le> \<bar>sqrt (341 / 256)\<bar>" "\<bar>sqrt (341 / 256)\<bar> < pow2 (0 + 1)"
proof -
  have "1 \<le> sqrt (341 / 256)" by simp
  then show "pow2 0 \<le> \<bar>sqrt (341 / 256)\<bar>" by (simp add: pow2_def)
  have "sqrt (341 / 256) < 2" by (intro real_less_lsqrt) auto
  then show "\<bar>sqrt (341 / 256)\<bar> < pow2 (0 + 1)" by (simp add: pow2_def)
qed

lemma norm_halving_vector: "np_linalg_norm_float32 halving_vector = Fin (9681599 / 8388608)"
  unfolding np_linalg_norm_float32_def square_norm_halving_vector
  using round32_binade [OF sqrt_in_binade] sqrt_rounded
  by (simp add: sqrt32_def to_float32_Fin pow2_def)

lemma norm_product_rounded:
  "mul32 (Fin (9681599 / 8388608)) (Fin (9681599 / 8388608)) = Fin (11173887 / 8388608)"
  by (simp add: mul32_def to_float32_Fin round32_binade [where k = 0] pow2_def
      round_half_even_def Let_def)

lemma quotient_rounded:
  "div32 (Fin (341 / 256)) (Fin (11173887 / 8388608)) = Fin (8388609 / 8388608)"
  by (simp add: div32_def to_float32_Fin round32_binade [where k = 0] pow2_def
      round_half_even_def Let_def)

text \<open>
  The part of C8 that holds: when the norm of either vector is 0 the score is 0, not the
  NaN of the division.
\<close>

lemma cosine_similarity_float32_zero_norm:
  assumes "length vec1 = length vec2"
    and "np_linalg_norm_float32 vec1 = Fin 0 \<or> np_linalg_norm_float32 vec2 = Fin 0"
  shows "cosine_similarity_float32 vec1 vec2 = Inr (Fin 0)"
  using assms by (auto simp: cosine_similarity_float32_def np_dot_float32_def Let_def)

text \<open>
  C8 fails on the code in its range. The dot product of \<open>halving_vector\<close> with itself is
  341 / 256; its norm is rounded down, and so is the product of the two norms, to
  341 / 256 - 1 / 2 ^ 23; the quotient is rounded to 1 + 1 / 2 ^ 23. The score of the
  vector against itself is above 1, against the docstring of \<^verbatim>\<open>_cosine_similarity\<close>
  (from -1.0 to 1.0).
\<close>

theorem cosine_similarity_float32_exceeds_one:
  "cosine_similarity_float32 halving_vector halving_vector = Inr (Fin (8388609 / 8388608))
   \<and> (1 :: real) < 8388609 / 8388608"
  by (simp add: cosine_similarity_float32_def np_dot_float32_def dot_halving_vector
      norm_halving_vector norm_product_rounded quotient_rounded Let_def)

end
